theory Spec2Isabelle
  imports Main "HOL-Library.Sublist"
begin

section \<open>Data model\<close>

text \<open>
  The development follows the second (complete) version of \<^verbatim>\<open>src/index.tsx\<close>: the one that
  defines \<^verbatim>\<open>getAllFilteredProducts\<close> and \<^verbatim>\<open>buildFilterUrl\<close>.

  A JavaScript string is modelled by the byte sequence of its UTF-8 encoding, as a HOL
  \<^typ>\<open>string\<close>: this is the form in which SQLite stores and compares text, and the form on
  which \<^verbatim>\<open>encodeURIComponent\<close> works. Strings that are not well-formed Unicode (lone
  surrogates) have no UTF-8 encoding and are outside the model; \<^verbatim>\<open>c.req.query\<close> never
  delivers one.

  An optional property of type \<^verbatim>\<open>string | null\<close> can be \<^verbatim>\<open>undefined\<close>, \<^verbatim>\<open>null\<close> or a
  string.
\<close>

datatype raw = Undefined | Null | Str string

text \<open>The argument of \<^verbatim>\<open>parseFilterInput\<close>: \<^verbatim>\<open>{ size?: string | null; query?: string | null }\<close>.\<close>

record filter_input =
  size_in :: raw
  query_in :: raw

text \<open>
  The result of \<^verbatim>\<open>parseFilterInput\<close>: \<^verbatim>\<open>{ size, query }\<close>. The type \<^verbatim>\<open>Size\<close> is a union of
  string literals, so at run time a size is a string; \<^verbatim>\<open>query\<close> is \<^verbatim>\<open>string | null\<close>.
\<close>

record parsed_filter =
  size_f :: string
  query_f :: "string option"

text \<open>\<^verbatim>\<open>class Product { id: number; title: string; size: string }\<close>\<close>

record product =
  id_p :: nat
  title :: string
  size_p :: string

section \<open>The filter parser\<close>

text \<open>JavaScript truthiness of a \<^verbatim>\<open>string | null | undefined\<close>: only a non-empty string is truthy.\<close>

fun truthy :: "raw \<Rightarrow> bool" where
  "truthy Undefined = False"
| "truthy Null = False"
| "truthy (Str s) = (s \<noteq> [])"

text \<open>\<^verbatim>\<open>x ?? null\<close>: \<^verbatim>\<open>undefined\<close> and \<^verbatim>\<open>null\<close> become \<^verbatim>\<open>null\<close>, every string is kept.\<close>

fun nullish_null :: "raw \<Rightarrow> string option" where
  "nullish_null Undefined = None"
| "nullish_null Null = None"
| "nullish_null (Str s) = Some s"

text \<open>
  \<^verbatim>\<open>
  let size: Size = "small";
  if (input.size) {
    const isValid = input.size === "small" || input.size === "medium" || input.size === "large";
    if (isValid) { size = input.size as Size; }
  }
  const query = input.query ?? null;
  return { size, query };
  \<close>
\<close>

definition isValid :: "raw \<Rightarrow> bool" where
  "isValid r \<longleftrightarrow> r = Str ''small'' \<or> r = Str ''medium'' \<or> r = Str ''large''"

definition parseFilterInput :: "filter_input \<Rightarrow> parsed_filter" where
  "parseFilterInput input =
     \<lparr> size_f = (if truthy (size_in input)
                 then (if isValid (size_in input)
                       then (case size_in input of Str s \<Rightarrow> s | _ \<Rightarrow> ''small'')
                       else ''small'')
                 else ''small''),
       query_f = nullish_null (query_in input) \<rparr>"

section \<open>The product table and the prepared statement\<close>

text \<open>
  The table \<^verbatim>\<open>products\<close> is the list of its rows in \<^verbatim>\<open>id\<close> order (the order of a table
  scan); it is process-wide state that the handlers only read, so it is passed to them.

  The prepared statement is
  \<^verbatim>\<open>SELECT * FROM products WHERE (? IS NULL OR LOWER(title) LIKE LOWER(?)) AND size = ?\<close>.
  Its evaluation follows the SQL language as SQLite documents it (default build: no ICU,
  \<^verbatim>\<open>case_sensitive_like\<close> off, no \<^verbatim>\<open>ESCAPE\<close> clause). A SQL value of type boolean is
  \<^typ>\<open>bool option\<close> and a SQL text is \<^typ>\<open>string option\<close>, \<^term>\<open>None\<close> being \<^verbatim>\<open>NULL\<close>.

  Running the statement can fail: \<^verbatim>\<open>LIKE\<close> raises \<^verbatim>\<open>LIKE or GLOB pattern too complex\<close> for a
  pattern of more than \<^verbatim>\<open>SQLITE_MAX_LIKE_PATTERN_LENGTH\<close> bytes. The error is thrown by
  \<^verbatim>\<open>filter.all\<close> and, as nothing in the source catches it, by every function that calls it.
\<close>

datatype error = LikePatternTooComplex

definition SQLITE_MAX_LIKE_PATTERN_LENGTH :: nat where
  "SQLITE_MAX_LIKE_PATTERN_LENGTH = 50000"

type_synonym products = "product list"

text \<open>\<^verbatim>\<open>LOWER\<close> folds the 26 ASCII upper-case letters and leaves every other byte.\<close>

definition ascii_lower :: "char \<Rightarrow> char" where
  "ascii_lower c =
     (if (65::nat) \<le> of_char c \<and> of_char c \<le> (90::nat) then char_of (of_char c + (32::nat)) else c)"

definition sql_lower :: "string option \<Rightarrow> string option" where
  "sql_lower x = map_option (map ascii_lower) x"

text \<open>
  One character of a UTF-8 text: a byte from \<^verbatim>\<open>0xC0\<close> on starts a character that extends over
  the continuation bytes (\<^verbatim>\<open>0x80\<close> to \<^verbatim>\<open>0xBF\<close>) that follow it.
\<close>

definition is_cont :: "char \<Rightarrow> bool" where
  "is_cont c \<longleftrightarrow> (128::nat) \<le> of_char c \<and> of_char c < (192::nat)"

fun utf8_next :: "string \<Rightarrow> string" where
  "utf8_next [] = []"
| "utf8_next (c # cs) = (if (192::nat) \<le> of_char c then dropWhile is_cont cs else cs)"

lemma length_utf8_next: "length (utf8_next (c # cs)) \<le> length cs"
  by (simp add: length_dropWhile_le)

text \<open>
  The comparison of \<^verbatim>\<open>string LIKE pattern\<close>: \<^verbatim>\<open>%\<close> in the pattern matches any sequence of
  zero or more characters, \<^verbatim>\<open>_\<close> matches any single character, any other character matches
  itself or its ASCII upper/lower case equivalent. The first argument is the pattern.
\<close>

function like_match :: "string \<Rightarrow> string \<Rightarrow> bool" where
  "like_match [] s = (s = [])"
| "like_match (p # ps) [] = (p = CHR ''%'' \<and> like_match ps [])"
| "like_match (p # ps) (c # cs) =
     (if p = CHR ''%'' then like_match ps (c # cs) \<or> like_match (p # ps) (utf8_next (c # cs))
      else if p = CHR ''_'' then like_match ps (utf8_next (c # cs))
      else ascii_lower p = ascii_lower c \<and> like_match ps cs)"
  by pat_completeness auto
termination
  by (relation "measure (\<lambda>(p, s). length p + length s)") (auto simp del: utf8_next.simps simp: length_utf8_next le_imp_less_Suc less_Suc_eq_le le_SucI)

text \<open>
  \<^verbatim>\<open>LIKE\<close> reads its pattern and its text as C strings: each ends at its first NUL character,
  if it has one.
\<close>

definition c_str :: "string \<Rightarrow> string" where
  "c_str s = takeWhile (\<lambda>c. c \<noteq> CHR 0x00) s"

text \<open>
  The \<^verbatim>\<open>LIKE\<close> operator. It first checks the byte length of the whole pattern against the
  limit, then gives \<^verbatim>\<open>NULL\<close> if the pattern or the text is \<^verbatim>\<open>NULL\<close>, and otherwise compares.
\<close>

definition sql_like :: "string option \<Rightarrow> string option \<Rightarrow> error + bool option" where
  "sql_like s p =
     (case p of
        None \<Rightarrow> Inr None
      | Some p' \<Rightarrow>
          if SQLITE_MAX_LIKE_PATTERN_LENGTH < length p' then Inl LikePatternTooComplex
          else (case s of
                  None \<Rightarrow> Inr None
                | Some s' \<Rightarrow> Inr (Some (like_match (c_str p') (c_str s')))))"

text \<open>The three-valued connectives of SQL.\<close>

fun sql_or :: "bool option \<Rightarrow> bool option \<Rightarrow> bool option" where
  "sql_or (Some True) _ = Some True"
| "sql_or _ (Some True) = Some True"
| "sql_or (Some False) (Some False) = Some False"
| "sql_or _ _ = None"

fun sql_and :: "bool option \<Rightarrow> bool option \<Rightarrow> bool option" where
  "sql_and (Some False) _ = Some False"
| "sql_and _ (Some False) = Some False"
| "sql_and (Some True) (Some True) = Some True"
| "sql_and _ _ = None"

definition sql_is_null :: "string option \<Rightarrow> bool option" where
  "sql_is_null x = Some (x = None)"

definition sql_eq :: "string option \<Rightarrow> string option \<Rightarrow> bool option" where
  "sql_eq x y = (case (x, y) of (Some a, Some b) \<Rightarrow> Some (a = b) | _ \<Rightarrow> None)"

text \<open>
  The \<^verbatim>\<open>WHERE\<close> clause on one row, with the three bound parameters. The terms are evaluated
  from left to right; the right operand of \<^verbatim>\<open>OR\<close> is not evaluated when the left one is true.
\<close>

definition filter_where ::
  "product \<Rightarrow> string option \<Rightarrow> string option \<Rightarrow> string \<Rightarrow> error + bool option" where
  "filter_where r p1 p2 p3 =
     (case (if sql_is_null p1 = Some True then Inr (Some True)
            else (case sql_like (sql_lower (Some (title r))) (sql_lower p2) of
                    Inl e \<Rightarrow> Inl e
                  | Inr b \<Rightarrow> Inr (sql_or (sql_is_null p1) b))) of
        Inl e \<Rightarrow> Inl e
      | Inr b \<Rightarrow> Inr (sql_and b (sql_eq (Some (size_p r)) (Some p3))))"

text \<open>
  \<^verbatim>\<open>filter.all(p1, p2, p3)\<close>: the table is scanned in order and the rows on which the clause is
  true are collected; an error on a row ends the scan and is thrown.
\<close>

fun filter_all ::
  "products \<Rightarrow> string option \<Rightarrow> string option \<Rightarrow> string \<Rightarrow> error + product list" where
  "filter_all [] p1 p2 p3 = Inr []"
| "filter_all (r # rs) p1 p2 p3 =
     (case filter_where r p1 p2 p3 of
        Inl e \<Rightarrow> Inl e
      | Inr b \<Rightarrow>
          (case filter_all rs p1 p2 p3 of
             Inl e \<Rightarrow> Inl e
           | Inr out \<Rightarrow> Inr (if b = Some True then r # out else out)))"

text \<open>
  \<^verbatim>\<open>
  function getAllFilteredProducts(query: string | null, size: Size): Product[] {
    const formattedQuery = query ? `%${query}%` : null;
    return filter.all(formattedQuery, formattedQuery, size);
  }
  \<close>
  A \<^verbatim>\<open>string | null\<close> is truthy when it is a non-empty string.
\<close>

definition getAllFilteredProducts ::
  "products \<Rightarrow> string option \<Rightarrow> string \<Rightarrow> error + product list" where
  "getAllFilteredProducts db query size' =
     (let formattedQuery =
            (case query of
               None \<Rightarrow> None
             | Some q \<Rightarrow> if q \<noteq> [] then Some (''%'' @ q @ ''%'') else None)
      in filter_all db formattedQuery formattedQuery size')"

section \<open>The filter URL builder\<close>

text \<open>
  \<^verbatim>\<open>encodeURIComponent\<close> keeps the characters \<^verbatim>\<open>A-Z a-z 0-9 - _ . ! ~ * ' ( )\<close> and writes
  every other byte of the UTF-8 encoding as \<^verbatim>\<open>%XX\<close> with upper-case hexadecimal digits.
\<close>

definition uriUnescaped :: "char \<Rightarrow> bool" where
  "uriUnescaped c \<longleftrightarrow>
     c \<in> set (''ABCDEFGHIJKLMNOPQRSTUVWXYZabcdefghijklmnopqrstuvwxyz0123456789-_.!~*'()'')"

definition hexDigit :: "nat \<Rightarrow> char" where
  "hexDigit n = ''0123456789ABCDEF'' ! n"

definition percentEncode :: "char \<Rightarrow> string" where
  "percentEncode c = [CHR ''%'', hexDigit (of_char c div 16), hexDigit (of_char c mod 16)]"

definition encodeURIComponent :: "string \<Rightarrow> string" where
  "encodeURIComponent s = concat (map (\<lambda>c. if uriUnescaped c then [c] else percentEncode c) s)"

text \<open>
  \<^verbatim>\<open>
  function buildFilterUrl(baseUrl: string, query: string | null, size: Size): string {
    const formattedQuery = query ? `&query=${encodeURIComponent(query)}` : "";
    return `${baseUrl}?size=${size}${formattedQuery}`;
  }
  \<close>
\<close>

definition buildFilterUrl :: "string \<Rightarrow> string option \<Rightarrow> string \<Rightarrow> string" where
  "buildFilterUrl baseUrl query size' =
     (let formattedQuery =
            (case query of
               None \<Rightarrow> []
             | Some q \<Rightarrow> if q \<noteq> [] then ''&query='' @ encodeURIComponent q else [])
      in baseUrl @ ''?size='' @ size' @ formattedQuery)"

section \<open>Components\<close>

text \<open>
  A JSX value is kept as the tree it denotes: an element with its props and children, a text,
  or a fragment \<^verbatim>\<open><>...</>\<close>. A prop is a string, a boolean, a number or a style object.
\<close>

datatype jsx_prop = PStr string | PBool bool | PNum nat | PStyle "(string \<times> string) list"

datatype jsx = Element string "(string \<times> jsx_prop) list" "jsx list" | Text string | Fragment "jsx list"

text \<open>The decimal form of a number, as \<^verbatim>\<open>`/product/${product.id}`\<close> writes an id.\<close>

definition digit :: "nat \<Rightarrow> char" where
  "digit n = ''0123456789'' ! n"

function numberToString :: "nat \<Rightarrow> string" where
  "numberToString n =
     (if n < 10 then [digit n] else numberToString (n div 10) @ [digit (n mod 10)])"
  by pat_completeness auto
termination
  by (relation "measure id") auto

declare numberToString.simps [simp del]

definition Root :: "jsx list \<Rightarrow> jsx" where
  "Root children =
     Element ''html'' [(''lang'', PStr ''en'')]
       [Element ''head'' []
          [Element ''meta'' [(''charSet'', PStr ''utf-8'')] [],
           Element ''meta'' [(''name'', PStr ''viewport''),
                            (''content'', PStr ''width=device-width, initial-scale=1.0'')] [],
           Element ''title'' [] [Text ''Query Params Example''],
           Element ''script''
             [(''type'', PStr ''module''),
              (''src'', PStr ''https://cdn.jsdelivr.net/gh/starfederation/datastar@1.0.0-RC.6/bundles/datastar.js'')]
             []],
        Element ''body'' [] children]"

definition FilterFields :: "string \<Rightarrow> string \<Rightarrow> jsx" where
  "FilterFields size' query =
     Fragment
       [Element ''label'' []
          [Text ''Size:'',
           Element ''select'' [(''name'', PStr ''size''), (''data-bind'', PStr ''size'')]
             [Element ''option'' [(''value'', PStr [])] [Text ''All''],
              Element ''option'' [(''value'', PStr ''small''), (''selected'', PBool (size' = ''small''))]
                [Text ''Small''],
              Element ''option'' [(''value'', PStr ''medium''), (''selected'', PBool (size' = ''medium''))]
                [Text ''Medium''],
              Element ''option'' [(''value'', PStr ''large''), (''selected'', PBool (size' = ''large''))]
                [Text ''Large'']]],
        Element ''label'' []
          [Text ''Search:'',
           Element ''input''
             [(''type'', PStr ''text''), (''name'', PStr ''query''), (''value'', PStr query),
              (''placeholder'', PStr ''Search...''), (''data-bind'', PStr ''query'')] []],
        Element ''button'' [(''type'', PStr ''submit'')] [Text ''Search'']]"

definition ProductItem :: "product \<Rightarrow> jsx" where
  "ProductItem p =
     Element ''li'' [(''key'', PNum (id_p p))]
       [Element ''a'' [(''href'', PStr (''/product/'' @ numberToString (id_p p)))]
          [Text (title p), Text '' | '', Text (size_p p)]]"

definition Products :: "product list \<Rightarrow> jsx" where
  "Products ps =
     Element ''div'' []
       [Element ''h1'' [] [Text ''Products''],
        Element ''ul'' [] (map ProductItem ps)]"

section \<open>Requests, responses and the route handlers\<close>

text \<open>
  Of a request the handlers read the path (\<^verbatim>\<open>c.req.path\<close>), the decoded query parameters
  (\<^verbatim>\<open>c.req.query(name)\<close>) and the headers (\<^verbatim>\<open>c.req.header(name)\<close>, keyed by the lower-case
  header name). A lookup that finds nothing gives \<^verbatim>\<open>undefined\<close>.
\<close>

record request =
  req_path :: string
  req_params :: "string \<rightharpoonup> string"
  req_headers :: "string \<rightharpoonup> string"

definition req_query :: "request \<Rightarrow> string \<Rightarrow> raw" where
  "req_query c name = (case req_params c name of None \<Rightarrow> Undefined | Some v \<Rightarrow> Str v)"

definition req_header :: "request \<Rightarrow> string \<Rightarrow> raw" where
  "req_header c name = (case req_headers c name of None \<Rightarrow> Undefined | Some v \<Rightarrow> Str v)"

text \<open>\<^verbatim>\<open>x ?? ""\<close> on a \<^verbatim>\<open>string | undefined\<close> and on a \<^verbatim>\<open>string | null\<close>.\<close>

fun nullish_empty :: "raw \<Rightarrow> string" where
  "nullish_empty Undefined = []"
| "nullish_empty Null = []"
| "nullish_empty (Str s) = s"

definition or_empty :: "string option \<Rightarrow> string" where
  "or_empty q = (case q of None \<Rightarrow> [] | Some s \<Rightarrow> s)"

text \<open>
  A response is a document made by \<^verbatim>\<open>c.html\<close>, a plain text with its status, or the
  instructions written to a server-sent-event stream, in order. The tree given to
  \<^verbatim>\<open>patchElements\<close> stands for its serialisation.
\<close>

datatype sse_event = PatchElements jsx | ExecuteScript string

datatype response = Html jsx | TextBody nat string | Stream "sse_event list"

text \<open>
  No handler catches an error and the application sets no error handler, so a handler that
  throws is answered by the framework's default: status 500 with the plain text
  \<^verbatim>\<open>Internal Server Error\<close>.
\<close>

definition onError :: "error \<Rightarrow> response" where
  "onError e = TextBody 500 ''Internal Server Error''"

text \<open>\<^verbatim>\<open>app.get("/search-mpa", ...)\<close>\<close>

definition search_mpa :: "products \<Rightarrow> request \<Rightarrow> response" where
  "search_mpa db c =
     (let f = parseFilterInput \<lparr> size_in = req_query c ''size'', query_in = req_query c ''query'' \<rparr>
      in case getAllFilteredProducts db (query_f f) (size_f f) of
           Inl e \<Rightarrow> onError e
         | Inr filteredProducts \<Rightarrow>
             Html (Root
               [Element ''form''
                  [(''data-on:input'',
                    PStr ''evt.target.type === 'select' ? evt.target.form.requestSubmit() : null'')]
                  [FilterFields (size_f f) (nullish_empty (req_query c ''query''))],
                Products filteredProducts]))"

text \<open>\<^verbatim>\<open>app.get("/search-update-url-client-side", ...)\<close>\<close>

definition search_update_url_client_side :: "products \<Rightarrow> request \<Rightarrow> response" where
  "search_update_url_client_side db c =
     (let f = parseFilterInput \<lparr> size_in = req_query c ''size'', query_in = req_query c ''query'' \<rparr>
      in case getAllFilteredProducts db (query_f f) (size_f f) of
           Inl e \<Rightarrow> onError e
         | Inr filteredProducts \<Rightarrow>
             let updateQueryParams =
                   ''window.history.replaceState({}, '' @ [CHR 0x27, CHR 0x27] @
                   '', new URL(window.location.pathname+'?size='+$size+'&query='+$query, window.location.href).toString())'';
                 getFilteredProducts =
                   ''@get('/search-update-url-client-side?size='+$size+'&query='+$query)'';
                 header =
                   Element ''form''
                     [(''data-signals:size'', PStr ([CHR 0x27] @ size_f f @ [CHR 0x27])),
                      (''data-signals:query'', PStr ([CHR 0x27] @ or_empty (query_f f) @ [CHR 0x27])),
                      (''data-on:input'', PStr ''evt.target.form.requestSubmit()''),
                      (''data-on:submit'',
                       PStr (''evt.preventDefault && '' @ getFilteredProducts @ '' && '' @ updateQueryParams))]
                     [FilterFields (size_f f) (or_empty (query_f f))];
                 isFragment = (req_header c ''datastar-request'' = Str ''true'')
             in if isFragment
                then Stream [PatchElements (Element ''body'' [] [header, Products filteredProducts])]
                else Html (Root [header, Products filteredProducts]))"

text \<open>\<^verbatim>\<open>app.get("/search-server-patch", ...)\<close>\<close>

definition search_server_patch :: "products \<Rightarrow> request \<Rightarrow> response" where
  "search_server_patch db c =
     (let f = parseFilterInput \<lparr> size_in = req_query c ''size'', query_in = req_query c ''query'' \<rparr>
      in case getAllFilteredProducts db (query_f f) (size_f f) of
           Inl e \<Rightarrow> onError e
         | Inr filteredProducts \<Rightarrow>
             let filterUrl = buildFilterUrl (req_path c) (query_f f) (size_f f);
                 getFilteredProducts =
                   ''@get('' @ [CHR 0x27] @ req_path c @ ''?size='+$size+'&query='+$query)'';
                 header =
                   Fragment
                     [Element ''form''
                        [(''data-signals:size'', PStr ([CHR 0x27] @ size_f f @ [CHR 0x27])),
                         (''data-signals:query'', PStr ([CHR 0x27] @ or_empty (query_f f) @ [CHR 0x27])),
                         (''data-on:input'', PStr ''evt.target.form.requestSubmit()''),
                         (''data-on:submit'', PStr (''evt.preventDefault && '' @ getFilteredProducts))]
                        [FilterFields (size_f f) (or_empty (query_f f))],
                      Element ''a''
                        [(''href'', PStr filterUrl),
                         (''style'', PStyle [(''display'', ''block''), (''paddingBottom'', ''20px'')])]
                        [Text ''Bookmark or share'']];
                 isFragment = (req_header c ''datastar-request'' = Str ''true'')
             in if isFragment
                then Stream
                       [PatchElements (Element ''body'' [] [header, Products filteredProducts]),
                        ExecuteScript
                          (''window.history.replaceState({}, '' @ [CHR 0x27, CHR 0x27] @ '', new URL('' @
                           [CHR 0x27] @ filterUrl @ [CHR 0x27] @ '', window.location.href).toString())'')]
                else Html (Root [header, Products filteredProducts]))"

section \<open>Notions of the specification\<close>




text \<open>The element at the root of a tree, and a full HTML document: one whose root is \<^verbatim>\<open>html\<close>.\<close>

fun root_tag :: "jsx \<Rightarrow> string option" where
  "root_tag (Element t _ _) = Some t"
| "root_tag (Text _) = None"
| "root_tag (Fragment _) = None"

fun full_document :: "response \<Rightarrow> bool" where
  "full_document (Html n) = (root_tag n = Some ''html'')"
| "full_document (TextBody _ _) = False"
| "full_document (Stream _) = False"



text \<open>
  The inverse of percent-encoding: \<^verbatim>\<open>%XX\<close> is the byte with that hexadecimal value, any other
  character is itself; \<^term>\<open>None\<close> when a \<^verbatim>\<open>%\<close> is not followed by two hexadecimal digits.
\<close>

definition hexValue :: "char \<Rightarrow> nat option" where
  "hexValue c = map_of (zip ''0123456789ABCDEF'' [0 ..< 16]) c"

fun percentDecode :: "string \<Rightarrow> string option" where
  "percentDecode [] = Some []"
| "percentDecode (c # cs) =
     (if c = CHR ''%''
      then (case cs of
              h # l # rest \<Rightarrow>
                (case (hexValue h, hexValue l, percentDecode rest) of
                   (Some a, Some b, Some r) \<Rightarrow> Some (char_of (16 * a + b) # r)
                 | _ \<Rightarrow> None)
            | _ \<Rightarrow> None)
      else map_option ((#) c) (percentDecode cs))"

text \<open>The three records of the end-to-end scenario, with the ids the table assigns.\<close>

definition seed3 :: products where
  "seed3 =
     [\<lparr> id_p = 1, title = ''Amazing Widget 1'', size_p = ''small'' \<rparr>,
      \<lparr> id_p = 2, title = ''Great Tool 2'', size_p = ''medium'' \<rparr>,
      \<lparr> id_p = 3, title = ''Super Gadget 3'', size_p = ''small'' \<rparr>]"

text \<open>
  A request for the size \<^verbatim>\<open>small\<close> and a given query on a given path, from the patch client
  (carrying \<^verbatim>\<open>datastar-request: true\<close>) or as a plain page load.
\<close>

definition search_request :: "string \<Rightarrow> string \<Rightarrow> bool \<Rightarrow> request" where
  "search_request path' q patch =
     \<lparr> req_path = path',
       req_params = [''size'' \<mapsto> ''small'', ''query'' \<mapsto> q],
       req_headers = (if patch then [''datastar-request'' \<mapsto> ''true''] else Map.empty) \<rparr>"

text \<open>A query whose pattern \<^verbatim>\<open>%query%\<close> is over the length limit of \<^verbatim>\<open>LIKE\<close>.\<close>

definition pattern_too_long :: "string option \<Rightarrow> bool" where
  "pattern_too_long query \<longleftrightarrow>
     (case query of None \<Rightarrow> False | Some q \<Rightarrow> SQLITE_MAX_LIKE_PATTERN_LENGTH < length q + 2)"









section \<open>The filter parser: size and query\<close>

text \<open>
  C2. A raw size that is not exactly one of \<^verbatim>\<open>"small"\<close>, \<^verbatim>\<open>"medium"\<close>, \<^verbatim>\<open>"large"\<close> (absent,
  \<^verbatim>\<open>null\<close> and the empty string included) is parsed to \<^verbatim>\<open>"small"\<close>; a raw size that is one of
  the three is kept unchanged. \<^const>\<open>parseFilterInput\<close> is a total function with no error
  result: it has no \<^verbatim>\<open>throw\<close>, and every input gives a filter.
\<close>

theorem parseFilterInput_size:
  "(size_in i \<notin> {Str ''small'', Str ''medium'', Str ''large''} \<longrightarrow>
      size_f (parseFilterInput i) = ''small'') \<and>
   (\<forall>v \<in> {''small'', ''medium'', ''large''}.
      size_in i = Str v \<longrightarrow> size_f (parseFilterInput i) = v)"
  by (cases "size_in i") (auto simp: parseFilterInput_def isValid_def)

theorem parseFilterInput_size_witness:
  "Str ''Large'' \<notin> {Str ''small'', Str ''medium'', Str ''large''} \<and>
   size_f (parseFilterInput \<lparr> size_in = Str ''Large'', query_in = Undefined \<rparr>) = ''small'' \<and>
   ''medium'' \<in> {''small'', ''medium'', ''large''} \<and>
   size_f (parseFilterInput \<lparr> size_in = Str ''medium'', query_in = Null \<rparr>) = ''medium''"
  using parseFilterInput_size [of "\<lparr> size_in = Str ''Large'', query_in = Undefined \<rparr>"]
    parseFilterInput_size [of "\<lparr> size_in = Str ''medium'', query_in = Null \<rparr>"]
  by simp

text \<open>
  C4, as the code has it. The query of the parsed filter is the raw query whenever that is a
  string, the empty string included; it is absent only when the raw query is \<^verbatim>\<open>undefined\<close> or
  \<^verbatim>\<open>null\<close>.
\<close>

theorem parseFilterInput_query:
  "query_f (parseFilterInput i) =
     (case query_in i of Undefined \<Rightarrow> None | Null \<Rightarrow> None | Str s \<Rightarrow> Some s)"
  by (cases "query_in i") (simp_all add: parseFilterInput_def)

text \<open>
  C4, as the specification has it, fails: an empty raw query stays an empty-string query in the
  filter and is not made absent.
\<close>

theorem parseFilterInput_empty_query_kept:
  "query_f (parseFilterInput \<lparr> size_in = Undefined, query_in = Str '''' \<rparr>) = Some '''' \<and>
   query_f (parseFilterInput \<lparr> size_in = Undefined, query_in = Str '''' \<rparr>) \<noteq> None"
  by (simp add: parseFilterInput_def)

text \<open>
  C8. Whatever the raw inputs, the size of the parsed filter is one of \<^verbatim>\<open>"small"\<close>,
  \<^verbatim>\<open>"medium"\<close>, \<^verbatim>\<open>"large"\<close>, and so never the empty string; its type has no \<^verbatim>\<open>null\<close> or
  \<^verbatim>\<open>undefined\<close>.
\<close>

theorem parseFilterInput_size_enumerated:
  "size_f (parseFilterInput i) \<in> {''small'', ''medium'', ''large''} \<and>
   size_f (parseFilterInput i) \<noteq> ''''"
  by (cases "size_in i") (auto simp: parseFilterInput_def isValid_def)

section \<open>The lookup\<close>

subsection \<open>Case folding\<close>

lemma of_char_lower_range:
  "(65::nat) \<le> of_char c \<Longrightarrow> of_char c \<le> (90::nat) \<Longrightarrow>
     of_char (char_of (of_char c + (32::nat))) = (of_char c + 32 :: nat)"
  by (simp add: of_char_of)

lemma of_char_ascii_lower:
  "(of_char (ascii_lower c) :: nat) =
     (if 65 \<le> (of_char c :: nat) \<and> (of_char c :: nat) \<le> 90 then of_char c + 32 else of_char c)"
  by (simp add: ascii_lower_def of_char_lower_range)

lemma char_eq_nat: "(c = d) \<longleftrightarrow> ((of_char c :: nat) = of_char d)"
  by simp


lemma ascii_lower_percent: "ascii_lower c = CHR ''%'' \<longleftrightarrow> c = CHR ''%''"
  unfolding char_eq_nat [of _ "CHR ''%''"] by (simp add: of_char_ascii_lower)











subsection \<open>The pattern \<^verbatim>\<open>%q%\<close> for a query without wildcards\<close>












subsection \<open>Running the statement\<close>

text \<open>
  The statement fails exactly when it has a row to look at and a pattern over the length
  limit; otherwise it returns the rows that match, in table order.
\<close>

lemma sql_and_Some: "sql_and (Some a) (Some b) = Some (a \<and> b)"
  by (cases a; cases b) simp_all

lemma filter_where_null: "filter_where r None None sz = Inr (Some (size_p r = sz))"
  by (simp add: filter_where_def sql_is_null_def sql_eq_def sql_and_Some)

lemma filter_where_pattern:
  "length p \<le> SQLITE_MAX_LIKE_PATTERN_LENGTH \<Longrightarrow>
     filter_where r (Some p) (Some p) sz =
       Inr (Some (like_match (c_str (map ascii_lower p)) (c_str (map ascii_lower (title r))) \<and>
                  size_p r = sz))"
  by (cases "like_match (c_str (map ascii_lower p)) (c_str (map ascii_lower (title r)))")
    (simp_all add: filter_where_def sql_is_null_def sql_like_def sql_lower_def sql_eq_def
      sql_and_Some)

lemma filter_where_long:
  "SQLITE_MAX_LIKE_PATTERN_LENGTH < length p \<Longrightarrow>
     filter_where r (Some p) (Some p) sz = Inl LikePatternTooComplex"
  by (simp add: filter_where_def sql_is_null_def sql_like_def sql_lower_def)

lemma filter_all_null: "filter_all db None None sz = Inr (List.filter (\<lambda>r. size_p r = sz) db)"
  by (induction db) (simp_all add: filter_where_null)

lemma filter_all_pattern:
  "length p \<le> SQLITE_MAX_LIKE_PATTERN_LENGTH \<Longrightarrow>
     filter_all db (Some p) (Some p) sz =
       Inr (List.filter
              (\<lambda>r. like_match (c_str (map ascii_lower p)) (c_str (map ascii_lower (title r))) \<and>
                   size_p r = sz) db)"
  by (induction db) (simp_all add: filter_where_pattern)

lemma filter_all_long:
  "SQLITE_MAX_LIKE_PATTERN_LENGTH < length p \<Longrightarrow> db \<noteq> [] \<Longrightarrow>
     filter_all db (Some p) (Some p) sz = Inl LikePatternTooComplex"
  by (cases db) (simp_all add: filter_where_long)

lemma lookup_null: "getAllFilteredProducts db None sz = Inr (List.filter (\<lambda>r. size_p r = sz) db)"
  by (simp add: getAllFilteredProducts_def filter_all_null)

lemma lookup_empty: "getAllFilteredProducts db (Some []) sz = Inr (List.filter (\<lambda>r. size_p r = sz) db)"
  by (simp add: getAllFilteredProducts_def filter_all_null)

lemma lookup_pattern:
  assumes "q \<noteq> []" "\<not> pattern_too_long (Some q)"
  shows "getAllFilteredProducts db (Some q) sz =
       Inr (List.filter
              (\<lambda>r. like_match (c_str (''%'' @ map ascii_lower q @ ''%''))
                                (c_str (map ascii_lower (title r))) \<and>
                   size_p r = sz) db)"
proof -
  have l: "length (''%'' @ q @ ''%'') \<le> SQLITE_MAX_LIKE_PATTERN_LENGTH"
    using assms(2) by (simp add: pattern_too_long_def)
  have "ascii_lower CHR ''%'' = CHR ''%''" using ascii_lower_percent by blast
  then have m: "map ascii_lower (''%'' @ q @ ''%'') = ''%'' @ map ascii_lower q @ ''%''" by simp
  show ?thesis
    using assms(1) filter_all_pattern [OF l, of db sz] unfolding m
    by (simp add: getAllFilteredProducts_def)
qed

lemma lookup_long:
  assumes "pattern_too_long (Some q)" "db \<noteq> []"
  shows "getAllFilteredProducts db (Some q) sz = Inl LikePatternTooComplex"
proof -
  have l: "SQLITE_MAX_LIKE_PATTERN_LENGTH < length (''%'' @ q @ ''%'')"
    using assms(1) by (simp add: pattern_too_long_def)
  then have "q \<noteq> []" by (auto simp: SQLITE_MAX_LIKE_PATTERN_LENGTH_def)
  then show ?thesis
    using filter_all_long [OF l assms(2), of sz] by (simp add: getAllFilteredProducts_def)
qed

lemma lookup_no_rows: "getAllFilteredProducts [] query sz = Inr []"
  by (simp add: getAllFilteredProducts_def Let_def)

lemma lookup_succeeds:
  assumes "\<not> (db \<noteq> [] \<and> pattern_too_long query)"
  shows "\<exists>ps. getAllFilteredProducts db query sz = Inr ps"
proof (cases "db = []")
  case True
  then show ?thesis by (simp add: lookup_no_rows)
next
  case False
  with assms have n: "\<not> pattern_too_long query" by simp
  show ?thesis
  proof (cases query)
    case None
    then show ?thesis by (simp add: lookup_null)
  next
    case (Some q)
    then show ?thesis using n by (cases "q = []") (simp_all add: lookup_empty lookup_pattern)
  qed
qed

lemma lookup_eval:
  assumes "q \<noteq> []" "\<not> pattern_too_long (Some q)"
    and "List.filter
           (\<lambda>r. like_match (c_str (''%'' @ map ascii_lower q @ ''%''))
                             (c_str (map ascii_lower (title r))) \<and>
                size_p r = sz) db = out"
  shows "getAllFilteredProducts db (Some q) sz = Inr out"
  using lookup_pattern [OF assms(1,2), of db sz] assms(3) by simp

lemma short_pattern: "length q < 1000 \<Longrightarrow> \<not> pattern_too_long (Some q)"
  by (simp add: pattern_too_long_def SQLITE_MAX_LIKE_PATTERN_LENGTH_def)

subsection \<open>Empty query, and the end-to-end scenario\<close>

text \<open>
  C9. With an empty-string query the lookup returns the same sequence as with an absent query:
  both bind \<^verbatim>\<open>NULL\<close> as the pattern.
\<close>

theorem getAllFilteredProducts_empty_query:
  "getAllFilteredProducts db (Some '''') size' = getAllFilteredProducts db None size'"
  by (simp add: getAllFilteredProducts_def)

text \<open>
  C7. On the table of the three records \<^verbatim>\<open>("Amazing Widget 1","small")\<close>,
  \<^verbatim>\<open>("Great Tool 2","medium")\<close>, \<^verbatim>\<open>("Super Gadget 3","small")\<close>, the request
  \<^verbatim>\<open>size=small&query=widget\<close> finds exactly \<^verbatim>\<open>Amazing Widget 1\<close>, and the request with no
  parameters finds exactly the two small records, without the medium one.
\<close>

theorem scenario_three_records:
  "(let f = parseFilterInput \<lparr> size_in = Str ''small'', query_in = Str ''widget'' \<rparr>
    in map_sum id (map title) (getAllFilteredProducts seed3 (query_f f) (size_f f)))
     = Inr [''Amazing Widget 1''] \<and>
   (let f = parseFilterInput \<lparr> size_in = Undefined, query_in = Undefined \<rparr>
    in map_sum id (map title) (getAllFilteredProducts seed3 (query_f f) (size_f f)))
     = Inr [''Amazing Widget 1'', ''Super Gadget 3'']"
proof -
  have 1: "getAllFilteredProducts seed3 (Some ''widget'') ''small'' =
     Inr [\<lparr> id_p = 1, title = ''Amazing Widget 1'', size_p = ''small'' \<rparr>]"
    by (rule lookup_eval) (simp, simp add: short_pattern, code_simp)
  have 2: "getAllFilteredProducts seed3 None ''small'' =
     Inr [\<lparr> id_p = 1, title = ''Amazing Widget 1'', size_p = ''small'' \<rparr>,
          \<lparr> id_p = 3, title = ''Super Gadget 3'', size_p = ''small'' \<rparr>]"
    by (simp add: lookup_null seed3_def)
  show ?thesis by (simp add: parseFilterInput_def isValid_def 1 2)
qed

subsection \<open>The matching rule\<close>





section \<open>The filter URL builder: empty query\<close>

text \<open>
  C10. With an empty-string query \<^const>\<open>buildFilterUrl\<close> leaves the \<^verbatim>\<open>&query=\<close> segment out and
  returns the base path followed by \<^verbatim>\<open>?size=\<close> and the size, the same string as for an absent
  query.
\<close>

theorem buildFilterUrl_empty_query:
  "buildFilterUrl baseUrl (Some '''') size' = baseUrl @ ''?size='' @ size' \<and>
   buildFilterUrl baseUrl (Some '''') size' = buildFilterUrl baseUrl None size'"
  by (simp add: buildFilterUrl_def)

section \<open>The filter URL builder: the form of the URL\<close>

subsection \<open>Percent-encoding can be undone\<close>

lemma hex_table: "list_all (\<lambda>n. hexValue (hexDigit n) = Some n) [0 ..< 16]"
  by code_simp

lemma hexValue_hexDigit: "n < 16 \<Longrightarrow> hexValue (hexDigit n) = Some n"
  using hex_table by (simp add: list_all_iff)

lemma of_char_div_16: "(of_char (c :: char) :: nat) div 16 < 16"
proof -
  have "(of_char c :: nat) < 256" by simp
  then show ?thesis by (simp add: div_less_iff_less_mult)
qed

lemma percentDecode_percentEncode:
  "percentDecode (percentEncode c @ rest) = map_option ((#) c) (percentDecode rest)"
proof -
  have "char_of (16 * ((of_char c :: nat) div 16) + of_char c mod 16) = c"
    by simp
  then show ?thesis
    by (cases "percentDecode rest")
      (simp_all add: percentEncode_def hexValue_hexDigit of_char_div_16)
qed

lemma uriUnescaped_not_percent: "uriUnescaped c \<Longrightarrow> c \<noteq> CHR ''%''"
  by (auto simp: uriUnescaped_def)

lemma encodeURIComponent_Cons:
  "encodeURIComponent (c # s) =
     (if uriUnescaped c then [c] else percentEncode c) @ encodeURIComponent s"
  by (simp add: encodeURIComponent_def)

lemma percentDecode_encodeURIComponent: "percentDecode (encodeURIComponent s) = Some s"
proof (induction s)
  case Nil
  then show ?case by (simp add: encodeURIComponent_def)
next
  case (Cons c s)
  show ?case
  proof (cases "uriUnescaped c")
    case True
    then show ?thesis
      using Cons uriUnescaped_not_percent [OF True] by (simp add: encodeURIComponent_Cons)
  next
    case False
    then show ?thesis
      using Cons percentDecode_percentEncode [of c "encodeURIComponent s"]
      by (simp add: encodeURIComponent_Cons)
  qed
qed

subsection \<open>The URL\<close>

text \<open>
  C3, as the code has it. \<^const>\<open>buildFilterUrl\<close> is a function of the base path, the query and
  the size alone, so equal arguments give equal strings. The URL is the base path followed by
  \<^verbatim>\<open>?size=\<close> and the size and, exactly when the query is present and not the empty string,
  by \<^verbatim>\<open>&query=\<close> and the percent-encoded query, from which the query is recovered by decoding.
  In particular the path \<^verbatim>\<open>/x\<close>, the query \<^verbatim>\<open>foo bar\<close> and the size \<^verbatim>\<open>large\<close> give
  \<^verbatim>\<open>/x?size=large&query=foo%20bar\<close>.
\<close>

theorem buildFilterUrl_form:
  "buildFilterUrl baseUrl query size' =
     baseUrl @ ''?size='' @ size' @
       (case query of
          None \<Rightarrow> ''''
        | Some q \<Rightarrow> if q = '''' then '''' else ''&query='' @ encodeURIComponent q) \<and>
   percentDecode (encodeURIComponent q') = Some q' \<and>
   (baseUrl = baseUrl2 \<and> query = query2 \<and> size' = size2 \<longrightarrow>
      buildFilterUrl baseUrl query size' = buildFilterUrl baseUrl2 query2 size2) \<and>
   buildFilterUrl ''/x'' (Some ''foo bar'') ''large'' = ''/x?size=large&query=foo%20bar''"
proof -
  have "buildFilterUrl ''/x'' (Some ''foo bar'') ''large'' = ''/x?size=large&query=foo%20bar''"
    by code_simp
  then show ?thesis
    by (simp add: percentDecode_encodeURIComponent) (simp add: buildFilterUrl_def split: option.split)
qed

theorem buildFilterUrl_form_witness:
  "buildFilterUrl ''/x'' (Some ''a&b'') ''small'' = buildFilterUrl ''/x'' (Some ''a&b'') ''small'' \<and>
   buildFilterUrl ''/x'' (Some ''a&b'') ''small'' = ''/x?size=small&query='' @ encodeURIComponent ''a&b'' \<and>
   percentDecode (encodeURIComponent ''a&b'') = Some ''a&b''"
  using buildFilterUrl_form [of "''/x''" "Some ''a&b''" "''small''" "''a&b''" "''/x''" "Some ''a&b''" "''small''"]
  by simp

text \<open>
  C3, as the specification has it, fails: a query that is present but empty gets no
  \<^verbatim>\<open>&query=\<close> segment.
\<close>

theorem buildFilterUrl_empty_query_present:
  "buildFilterUrl ''/x'' (Some '''') ''large'' = ''/x?size=large'' \<and>
   buildFilterUrl ''/x'' (Some '''') ''large'' \<noteq>
     ''/x'' @ ''?size='' @ ''large'' @ ''&query='' @ encodeURIComponent ''''"
  by (simp add: buildFilterUrl_def encodeURIComponent_def)

section \<open>The routes: full document or fragment\<close>

lemma root_tag_Root: "root_tag (Root children) = Some ''html''"
  by (simp add: Root_def)

lemma parsed_query: "query_f (parseFilterInput \<lparr> size_in = s, query_in = req_query c name \<rparr>) = req_params c name"
  by (simp add: parseFilterInput_def req_query_def split: option.split)

lemma handlers_error:
  assumes "db \<noteq> []" "pattern_too_long (req_params c ''query'')"
  shows "search_mpa db c = TextBody 500 ''Internal Server Error''"
    and "search_update_url_client_side db c = TextBody 500 ''Internal Server Error''"
    and "search_server_patch db c = TextBody 500 ''Internal Server Error''"
proof -
  obtain q where q: "req_params c ''query'' = Some q"
    using assms(2) by (cases "req_params c ''query''") (simp_all add: pattern_too_long_def)
  have l: "\<And>sz. getAllFilteredProducts db (Some q) sz = Inl LikePatternTooComplex"
    using assms q by (simp add: lookup_long)
  show "search_mpa db c = TextBody 500 ''Internal Server Error''"
    by (simp add: search_mpa_def parsed_query onError_def q l)
  show "search_update_url_client_side db c = TextBody 500 ''Internal Server Error''"
    by (simp add: search_update_url_client_side_def parsed_query onError_def q l)
  show "search_server_patch db c = TextBody 500 ''Internal Server Error''"
    by (simp add: search_server_patch_def parsed_query onError_def q l)
qed

lemma search_mpa_full:
  assumes "\<not> (db \<noteq> [] \<and> pattern_too_long (req_params c ''query''))"
  shows "full_document (search_mpa db c)"
proof -
  obtain ps where "getAllFilteredProducts db (req_params c ''query'')
      (size_f (parseFilterInput \<lparr> size_in = req_query c ''size'', query_in = req_query c ''query'' \<rparr>))
      = Inr ps"
    using lookup_succeeds [OF assms] by blast
  then show ?thesis by (simp add: search_mpa_def parsed_query root_tag_Root)
qed

lemma search_request_simps:
  "req_path (search_request p q b) = p"
  "req_params (search_request p q b) ''query'' = Some q"
  "req_query (search_request p q b) ''size'' = Str ''small''"
  "req_query (search_request p q b) ''query'' = Str q"
  "req_header (search_request p q True) ''datastar-request'' = Str ''true''"
  "req_header (search_request p q False) ''datastar-request'' = Undefined"
  by (simp_all add: search_request_def req_query_def req_header_def)

lemma long_query: "pattern_too_long (Some (replicate 49999 CHR ''a''))"
  by (simp add: pattern_too_long_def SQLITE_MAX_LIKE_PATTERN_LENGTH_def)

lemma seed3_rows: "seed3 \<noteq> []"
  by (simp add: seed3_def)

text \<open>
  C5, as the code has it. When the lookup throws (a query of 49999 bytes or more, on a table
  that is not empty), each of the three routes answers with status 500 and a plain text, with or
  without the header. Otherwise \<^verbatim>\<open>/search-mpa\<close> always answers with a full HTML document,
  whatever the headers; \<^verbatim>\<open>/search-update-url-client-side\<close> and \<^verbatim>\<open>/search-server-patch\<close> answer a
  request that carries \<^verbatim>\<open>datastar-request: true\<close> with a stream (one patch, and for the second
  route a script after it) whose patched tree has the root \<^verbatim>\<open>body\<close>, not a full document, and
  every other request with a full HTML document.
\<close>

theorem routes_document_or_fragment:
  "(db \<noteq> [] \<and> pattern_too_long (req_params c ''query'') \<longrightarrow>
      search_mpa db c = TextBody 500 ''Internal Server Error'' \<and>
      search_update_url_client_side db c = TextBody 500 ''Internal Server Error'' \<and>
      search_server_patch db c = TextBody 500 ''Internal Server Error'') \<and>
   (\<not> (db \<noteq> [] \<and> pattern_too_long (req_params c ''query'')) \<longrightarrow>
      full_document (search_mpa db c) \<and>
      (req_header c ''datastar-request'' = Str ''true'' \<longrightarrow>
         (\<exists>n. search_update_url_client_side db c = Stream [PatchElements n] \<and>
              root_tag n = Some ''body'') \<and>
         \<not> full_document (search_update_url_client_side db c) \<and>
         (\<exists>n s. search_server_patch db c = Stream [PatchElements n, ExecuteScript s] \<and>
                root_tag n = Some ''body'') \<and>
         \<not> full_document (search_server_patch db c)) \<and>
      (req_header c ''datastar-request'' \<noteq> Str ''true'' \<longrightarrow>
         full_document (search_update_url_client_side db c) \<and>
         full_document (search_server_patch db c)))"
proof (cases "db \<noteq> [] \<and> pattern_too_long (req_params c ''query'')")
  case True
  then obtain q where q: "req_params c ''query'' = Some q"
    by (cases "req_params c ''query''") (simp_all add: pattern_too_long_def)
  have "\<And>sz. getAllFilteredProducts db (Some q) sz = Inl LikePatternTooComplex"
    using True q by (simp add: lookup_long)
  then show ?thesis
    using True q
    by (simp add: search_mpa_def search_update_url_client_side_def search_server_patch_def
        parsed_query onError_def)
next
  case False
  show ?thesis
  proof -
    obtain ps where "getAllFilteredProducts db (req_params c ''query'')
        (size_f (parseFilterInput \<lparr> size_in = req_query c ''size'', query_in = req_query c ''query'' \<rparr>))
        = Inr ps"
      using lookup_succeeds [OF False] by blast
    then show ?thesis
      using False
      by (simp add: search_mpa_def search_update_url_client_side_def search_server_patch_def
          parsed_query Let_def root_tag_Root)
  qed
qed

theorem routes_document_or_fragment_witness:
  "seed3 \<noteq> [] \<and>
   pattern_too_long
     (req_params (search_request ''/search-update-url-client-side'' (replicate 49999 CHR ''a'') False) ''query'') \<and>
   search_update_url_client_side seed3
     (search_request ''/search-update-url-client-side'' (replicate 49999 CHR ''a'') False)
     = TextBody 500 ''Internal Server Error'' \<and>
   \<not> pattern_too_long (req_params (search_request ''/search-update-url-client-side'' ''widget'' True) ''query'') \<and>
   req_header (search_request ''/search-update-url-client-side'' ''widget'' True) ''datastar-request'' = Str ''true'' \<and>
   (\<exists>n. search_update_url_client_side seed3 (search_request ''/search-update-url-client-side'' ''widget'' True)
          = Stream [PatchElements n] \<and> root_tag n = Some ''body'') \<and>
   \<not> pattern_too_long (req_params (search_request ''/search-server-patch'' ''widget'' False) ''query'') \<and>
   req_header (search_request ''/search-server-patch'' ''widget'' False) ''datastar-request'' \<noteq> Str ''true'' \<and>
   full_document (search_server_patch seed3 (search_request ''/search-server-patch'' ''widget'' False))"
proof -
  have a: "seed3 \<noteq> [] \<and> pattern_too_long
     (req_params (search_request ''/search-update-url-client-side'' (replicate 49999 CHR ''a'') False) ''query'')"
    by (simp add: search_request_simps long_query seed3_rows)
  have b: "\<not> pattern_too_long (req_params (search_request ''/search-update-url-client-side'' ''widget'' True) ''query'')"
    "\<not> pattern_too_long (req_params (search_request ''/search-server-patch'' ''widget'' False) ''query'')"
    by (simp_all add: search_request_simps short_pattern)
  have h: "req_header (search_request ''/search-update-url-client-side'' ''widget'' True) ''datastar-request'' = Str ''true''"
    "req_header (search_request ''/search-server-patch'' ''widget'' False) ''datastar-request'' \<noteq> Str ''true''"
    by (simp_all add: search_request_simps)
  show ?thesis
    using a b h
      routes_document_or_fragment [of seed3
        "search_request ''/search-update-url-client-side'' (replicate 49999 CHR ''a'') False"]
      routes_document_or_fragment [of seed3
        "search_request ''/search-update-url-client-side'' ''widget'' True"]
      routes_document_or_fragment [of seed3
        "search_request ''/search-server-patch'' ''widget'' False"]
    by blast
qed

text \<open>
  C5, as the specification has it, fails twice: a request to \<^verbatim>\<open>/search-mpa\<close> that carries the
  header still gets the full document, and a request without the header whose query has 49999
  bytes gets the status 500 and no document.
\<close>

theorem search_mpa_ignores_patch_header:
  "req_header (search_request ''/search-mpa'' ''widget'' True) ''datastar-request'' = Str ''true'' \<and>
   full_document (search_mpa seed3 (search_request ''/search-mpa'' ''widget'' True)) \<and>
   req_header (search_request ''/search-update-url-client-side'' (replicate 49999 CHR ''a'') False)
     ''datastar-request'' \<noteq> Str ''true'' \<and>
   search_update_url_client_side seed3
     (search_request ''/search-update-url-client-side'' (replicate 49999 CHR ''a'') False)
     = TextBody 500 ''Internal Server Error'' \<and>
   \<not> full_document (search_update_url_client_side seed3
     (search_request ''/search-update-url-client-side'' (replicate 49999 CHR ''a'') False))"
proof -
  have "full_document (search_mpa seed3 (search_request ''/search-mpa'' ''widget'' True))"
    by (rule search_mpa_full) (simp add: search_request_simps short_pattern)
  moreover have "search_update_url_client_side seed3
     (search_request ''/search-update-url-client-side'' (replicate 49999 CHR ''a'') False)
     = TextBody 500 ''Internal Server Error''"
    by (rule handlers_error) (simp_all add: search_request_simps long_query seed3_rows)
  ultimately show ?thesis by (simp add: search_request_simps)
qed


section \<open>The server-driven patch: one URL for the link and the script\<close>

















end
